theory Spec2Isabelle
  imports Complex_Main
begin

section \<open>Numbers\<close>

text \<open>
  The program is TypeScript; every quantity is a \<^verbatim>\<open>number\<close>. Numbers are modelled here as
  mathematical reals, so \<^verbatim>\<open>Math.sin\<close>, \<^verbatim>\<open>Math.cos\<close> and \<^verbatim>\<open>Math.PI\<close> are \<^term>\<open>sin\<close>,
  \<^term>\<open>cos\<close> and \<^term>\<open>pi\<close>; rounding of IEEE doubles, \<^verbatim>\<open>NaN\<close> and the infinities are outside
  the model.

  The remainder operator \<^verbatim>\<open>a % b\<close> of the language truncates the quotient towards zero, so
  the result carries the sign of the dividend. Every divisor in the source is a non-zero
  constant or the loop length.
\<close>

definition js_trunc :: "real \<Rightarrow> int" where
  "js_trunc q = (if 0 \<le> q then \<lfloor>q\<rfloor> else \<lceil>q\<rceil>)"

definition fmod :: "real \<Rightarrow> real \<Rightarrow> real" where
  "fmod a b = a - b * of_int (js_trunc (a / b))"

section \<open>Scene generator and helpers (CinematicCanvas.tsx)\<close>

record Building =
  b_x :: real
  b_width :: real
  b_height :: real
  lightSeed :: real

record Billboard =
  bb_x :: real
  bb_y :: real
  bb_width :: real
  bb_height :: real
  rotation :: real

definition TOTAL_DURATION :: real where
  "TOTAL_DURATION = 45000"

text \<open>
  The body of the loop of \<^verbatim>\<open>generateBuildings\<close>: the record pushed for index \<open>i\<close>.
\<close>

definition building_at :: "int \<Rightarrow> int \<Rightarrow> Building" where
  "building_at count i =
     (let seed = sin (of_int i * 2245.929) * 10000;
          x = (of_int i / of_int count) * 1.05 - 0.05 + fmod seed 0.03;
          width = 0.03 + fmod (seed * 1.3) 0.05;
          height = 0.3 + fmod (seed * 3.7) 0.7
      in \<lparr>b_x = x, b_width = width, b_height = height, lightSeed = \<bar>seed\<bar>\<rparr>)"

text \<open>
  \<^verbatim>\<open>for (let i = 0; i < count; i += 1) { ... buildings.push(...) }\<close>, with the counter and
  the array built so far as arguments. The count is an integer in the model (the only call
  passes 45).
\<close>

function generateBuildings_loop :: "int \<Rightarrow> int \<Rightarrow> Building list \<Rightarrow> Building list" where
  "generateBuildings_loop i count buildings =
     (if i < count
      then generateBuildings_loop (i + 1) count (buildings @ [building_at count i])
      else buildings)"
  by pat_completeness auto
termination
  by (relation "measure (\<lambda>(i, count, buildings). nat (count - i))") auto

declare generateBuildings_loop.simps [simp del]

definition generateBuildings :: "int \<Rightarrow> Building list" where
  "generateBuildings count = generateBuildings_loop 0 count []"

definition billboard_at :: "nat \<Rightarrow> Billboard" where
  "billboard_at index =
     (let seed = cos (real index * 512.42) * 9999
      in \<lparr>bb_x = 0.1 + (fmod \<bar>seed\<bar> 0.8) * 0.8,
          bb_y = 0.1 + (fmod (seed * 0.53) 0.6) * 0.6,
          bb_width = 0.1 + fmod (seed * 1.2) 0.2,
          bb_height = 0.08 + fmod (seed * 0.91) 0.12,
          rotation = (fmod seed pi) / 6\<rparr>)"

definition generateBillboards :: "Billboard list" where
  "generateBillboards = map billboard_at [0..<6]"

definition lerp :: "real \<Rightarrow> real \<Rightarrow> real \<Rightarrow> real" where
  "lerp a b t = a + (b - a) * t"

definition easeInOut :: "real \<Rightarrow> real" where
  "easeInOut t = (if t < 0.5 then 4 * t * t * t else 1 - (- 2 * t + 2) ^ 3 / 2)"

definition clamp :: "real \<Rightarrow> real \<Rightarrow> real \<Rightarrow> real" where
  "clamp v lo hi = min hi (max lo v)"

definition wrapTime :: "real \<Rightarrow> real \<Rightarrow> real" where
  "wrapTime timestamp loopLength = fmod (fmod timestamp loopLength + loopLength) loopLength"

section \<open>The drawing surface\<close>

text \<open>
  The 2D context is modelled by the sequence of calls and property assignments made on it,
  in program order. A colour string such as \<^verbatim>\<open>rgba(r, g, b, a)\<close> or
  \<^verbatim>\<open>hsla(h, s%, l%, a)\<close> is kept as its four numeric components; a gradient object is
  the value built by \<^verbatim>\<open>createLinearGradient\<close> or \<^verbatim>\<open>createRadialGradient\<close> together
  with its colour stops in the order of the \<^verbatim>\<open>addColorStop\<close> calls; a font string is its
  weight, its pixel size and its list of families.
\<close>

datatype color =
    Rgba real real real real
  | Hsla real real real real

datatype style =
    Color color
  | LinearGradient real real real real "(real \<times> color) list"
  | RadialGradient real real real real real real "(real \<times> color) list"

datatype call =
    ClearRect real real real real
  | FillRect real real real real
  | StrokeRect real real real real
  | SetFillStyle style
  | SetStrokeStyle style
  | SetLineWidth real
  | SetGlobalAlpha real
  | SetGlobalCompositeOperation string
  | SetFont string real "string list"
  | SetTextAlign string
  | SetShadowColor color
  | SetShadowBlur real
  | FillText string real real
  | Save
  | Restore
  | Translate real real
  | Scale real real
  | Rotate real
  | BeginPath
  | ClosePath
  | Fill
  | Stroke
  | MoveTo real real
  | LineTo real real
  | QuadraticCurveTo real real real real
  | Arc real real real real real
  | Ellipse real real real real real real real

record SceneContext =
  sc_ctx :: "call list"
  sc_width :: real
  sc_height :: real
  sc_t :: real
  sc_buildings :: "Building list"
  sc_billboards :: "Billboard list"

text \<open>
  Each draw pass \<^verbatim>\<open>drawX({ ctx, width, height, t, ... }: SceneContext)\<close> is modelled twice:
  \<open>drawX_calls\<close> is the sequence of calls the body makes on \<^verbatim>\<open>ctx\<close>, as a function of
  the fields the pass destructures, and \<open>drawX\<close> is the pass as a transformer of the scene,
  appending those calls to the context held by the scene.
\<close>

subsection \<open>Sky\<close>

definition sky_star :: "real \<Rightarrow> real \<Rightarrow> real \<Rightarrow> nat \<Rightarrow> call list" where
  "sky_star width height t i =
     (let p = fmod (real i * 97.77) 1;
          x = p * width;
          y = ((sin (real i * 42.12 + t * 0.3) + 1) / 2) * height * 0.5;
          size = ((cos (real i * 12.12 + t) + 1) / 2) * 1.5 + 0.5
      in [SetFillStyle (Color (Rgba (150 + real (i mod 50)) (80 + real (i mod 40)) 255
                                    (0.5 + ((sin (t * 2 + real i) + 1) / 4)))),
          BeginPath,
          Arc x y size 0 (pi * 2),
          Fill])"

definition drawSkies_calls :: "real \<Rightarrow> real \<Rightarrow> real \<Rightarrow> call list" where
  "drawSkies_calls width height t =
     (let baseShift = sin (t * 0.1) * 0.1;
          gradient = LinearGradient 0 0 0 height
                       [(0, Rgba (10 + baseShift * 50) 10 60 1),
                        (0.5, Rgba 5 10 30 0.95),
                        (1, Rgba 0 0 8 1)]
      in [SetFillStyle gradient, FillRect 0 0 width height]
         @ concat (map (sky_star width height t) [0..<120]))"

definition drawSkies :: "SceneContext \<Rightarrow> SceneContext" where
  "drawSkies scene =
     scene\<lparr>sc_ctx := sc_ctx scene @ drawSkies_calls (sc_width scene) (sc_height scene) (sc_t scene)\<rparr>"

subsection \<open>City\<close>

text \<open>One window of a building: the body of the two nested loops over rows and columns.\<close>

definition city_window ::
  "real \<Rightarrow> real \<Rightarrow> real \<Rightarrow> int \<Rightarrow> real \<Rightarrow> real \<Rightarrow> nat \<Rightarrow> nat \<Rightarrow> nat \<Rightarrow> call list" where
  "city_window x w h windowCols flicker offset index r c =
     (let windowRows = 8;
          wx = x + 6 + real c * (w / of_int windowCols);
          wy = h + real r * ((- h) / windowRows);
          windowOn = ((r + c + index) mod 3 \<noteq> 0);
          intensity = (if windowOn then flicker else 0.1)
      in [SetFillStyle (Color (Rgba (120 + intensity * 80) (60 + intensity * 120)
                                    (20 + intensity * 160) (0.4 + intensity * 0.3))),
          FillRect wx wy 4 (8 + offset * 0.02)])"

definition city_building :: "real \<Rightarrow> real \<Rightarrow> real \<Rightarrow> nat \<times> Building \<Rightarrow> call list" where
  "city_building width height t ib =
     (let index = fst ib; building = snd ib;
          x = b_x building * width;
          w = b_width building * width;
          h = - b_height building * height;
          offset = sin (t * 0.5 + lightSeed building) * 20;
          buildingGrad = LinearGradient 0 h 0 0
                           [(0, Rgba (20 + real index * 3) 10 60 0.9),
                            (0.5, Rgba (10 + real index * 2) 10 40 0.9),
                            (1, Rgba 10 8 30 0.8)];
          windowCols = max 4 \<lfloor>w / 12\<rfloor>;
          flicker = 0.3 + (sin (t * 2 + real index) + 1) / 2
      in [SetFillStyle buildingGrad, FillRect x h w (- h)]
         @ concat (map (\<lambda>r. concat (map (city_window x w h windowCols flicker offset index r)
                                         [0..<nat windowCols]))
                       [1..<8]))"

definition city_billboard :: "real \<Rightarrow> real \<Rightarrow> real \<Rightarrow> nat \<times> Billboard \<Rightarrow> call list" where
  "city_billboard width height t ib =
     (let index = fst ib; board = snd ib;
          x = bb_x board * width;
          y = - bb_y board * height * 0.6;
          w = bb_width board * width;
          h = bb_height board * height;
          glow = LinearGradient (- w / 2) (- h / 2) (w / 2) (h / 2)
                   [(0, Rgba 0 (140 + real index * 10) (255 - real index * 20) 0.3),
                    (1, Rgba 255 (60 + real index * 20) (180 - real index * 10) 0.7)]
      in [Save,
          Translate (x + w / 2) (y - h / 2),
          Rotate (rotation board + sin (t * 0.5 + real index) * 0.02),
          SetFillStyle glow,
          FillRect (- w / 2) (- h / 2) w h,
          SetLineWidth (2 + sin (t * 6 + real index) * 0.5),
          SetStrokeStyle (Color (Rgba 255 255 255 0.8)),
          StrokeRect (- w / 2) (- h / 2) w h,
          Restore])"

definition drawCity_calls ::
  "real \<Rightarrow> real \<Rightarrow> real \<Rightarrow> Building list \<Rightarrow> Billboard list \<Rightarrow> call list" where
  "drawCity_calls width height t buildings billboards =
     (let baseline = height * 0.68
      in [Save, Translate 0 baseline, Scale 1 1]
         @ concat (map (city_building width height t) (enumerate 0 buildings))
         @ concat (map (city_billboard width height t) (enumerate 0 billboards))
         @ [Restore])"

definition drawCity :: "SceneContext \<Rightarrow> SceneContext" where
  "drawCity scene =
     scene\<lparr>sc_ctx := sc_ctx scene @ drawCity_calls (sc_width scene) (sc_height scene) (sc_t scene)
                                      (sc_buildings scene) (sc_billboards scene)\<rparr>"

subsection \<open>Shockwave\<close>

definition drawShockwave_calls :: "real \<Rightarrow> real \<Rightarrow> real \<Rightarrow> call list" where
  "drawShockwave_calls width height t =
     (let shockStart = 5; shockEnd = 11
      in if t < shockStart then []
         else
           let localT = clamp ((t - shockStart) / (shockEnd - shockStart)) 0 1;
               eased = easeInOut localT;
               radius = lerp 0 (max width height * 1.2) eased;
               centerX = width / 2;
               centerY = height * 0.65;
               gradient = RadialGradient centerX centerY (radius * 0.1) centerX centerY radius
                            [(0, Rgba 255 220 120 0.8),
                             (0.3, Rgba 255 120 20 0.35),
                             (0.6, Rgba 50 120 255 0.25),
                             (1, Rgba 0 0 0 0)]
           in [SetFillStyle gradient, BeginPath, Arc centerX centerY radius 0 (pi * 2), Fill])"

definition drawShockwave :: "SceneContext \<Rightarrow> SceneContext" where
  "drawShockwave scene =
     scene\<lparr>sc_ctx := sc_ctx scene
                        @ drawShockwave_calls (sc_width scene) (sc_height scene) (sc_t scene)\<rparr>"

subsection \<open>Arena\<close>

definition arena_burst :: "real \<Rightarrow> real \<Rightarrow> real \<Rightarrow> real \<Rightarrow> nat \<Rightarrow> call list" where
  "arena_burst width height t pulse i =
     (let phase = fmod (t * 0.8 + real i) 1;
          alpha = 1 - phase;
          cx = (0.1 + 0.8 * (fmod (real i * 97.31) 1)) * width;
          cy = height * (0.2 + (fmod (real i * 0.17) 0.4));
          radius = 80 + phase * 220
      in [SetStrokeStyle (Color (Rgba 255 (60 + real i * 25) (200 - real i * 20)
                                      (alpha * (0.6 + pulse * 0.2)))),
          SetLineWidth 2.5,
          BeginPath,
          Arc cx cy radius 0 (pi * 2),
          Stroke])"

definition arena_beam :: "real \<Rightarrow> real \<Rightarrow> real \<Rightarrow> real \<Rightarrow> nat \<times> Billboard \<Rightarrow> call list" where
  "arena_beam width height t localT ib =
     (let index = fst ib; board = snd ib;
          beamProgress = fmod (localT * 1.5 + real index * 0.1 + t * 0.2) 1;
          x = bb_x board * width;
          y = height * (0.4 + bb_y board * 0.4);
          w = bb_width board * width * (0.6 + localT * 0.8);
          h = bb_height board * height * (0.6 + localT * 0.7);
          grad = LinearGradient x y x (y - h * 1.8)
                   [(0, Rgba 0 255 220 0),
                    (clamp (beamProgress - 0.1) 0 1, Rgba 0 255 220 0),
                    (clamp beamProgress 0 1, Rgba 255 80 220 0.55),
                    (clamp (beamProgress + 0.05) 0 1, Rgba 255 140 20 0.2),
                    (1, Rgba 0 0 0 0)]
      in [SetFillStyle grad, FillRect (x - w / 2) (y - h * 1.8) w (h * 1.8)])"

definition drawArena_calls :: "real \<Rightarrow> real \<Rightarrow> real \<Rightarrow> Billboard list \<Rightarrow> call list" where
  "drawArena_calls width height t billboards =
     (let arenaStart = 9; arenaEnd = 20
      in if t < arenaStart then []
         else
           let localT = clamp ((t - arenaStart) / (arenaEnd - arenaStart)) 0 1;
               pulse = sin (t * 5) * 0.5 + 0.5;
               gridOpacity = 0.25 + localT * 0.6;
               floorY = height * 0.72
           in [Save,
               SetGlobalAlpha gridOpacity,
               SetStrokeStyle (Color (Rgba 0 255 240 (0.4 + pulse * 0.2))),
               SetLineWidth 1.5]
              @ concat (map (\<lambda>i. let x = (real i / 19) * width
                                 in [BeginPath,
                                     MoveTo x floorY,
                                     LineTo (width / 2 + (x - width / 2) * 1.6) height,
                                     Stroke])
                            [0..<20])
              @ concat (map (\<lambda>j. let y = floorY + (real j / 12) * (height - floorY)
                                 in [BeginPath,
                                     MoveTo 0 y,
                                     LineTo width (y + (sin (t + real j) * 20)),
                                     Stroke])
                            [0..<12])
              @ [Restore]
              @ concat (map (arena_burst width height t pulse) [0..<6])
              @ [Save,
                 SetFont ''bold'' (max 28 (width * 0.03)) [''Bebas Neue'', ''Oswald'', ''sans-serif''],
                 SetTextAlign ''center'',
                 SetFillStyle (Color (Rgba 255 80 180 (0.6 + localT * 0.4))),
                 SetShadowColor (Rgba 0 255 220 (0.7 * (0.4 + pulse * 0.6))),
                 SetShadowBlur (30 + 40 * pulse),
                 FillText ''RONALDO VS THE WORLD'' (width / 2) (height * 0.12),
                 Restore]
              @ concat (map (arena_beam width height t localT) (enumerate 0 billboards)))"

definition drawArena :: "SceneContext \<Rightarrow> SceneContext" where
  "drawArena scene =
     scene\<lparr>sc_ctx := sc_ctx scene @ drawArena_calls (sc_width scene) (sc_height scene) (sc_t scene)
                                      (sc_billboards scene)\<rparr>"

subsection \<open>Portals\<close>

record portal =
  p_x :: real
  p_y :: real
  p_hue :: real
  p_label :: string

text \<open>
  The third label is kept byte for byte as it stands in the source file (the UTF-8 encoding
  of the two characters that follow \<^verbatim>\<open>MBAPP\<close> there).
\<close>

definition portal_positions :: "real \<Rightarrow> real \<Rightarrow> portal list" where
  "portal_positions width height =
     [\<lparr>p_x = width * 0.22, p_y = height * 0.45, p_hue = 210, p_label = ''MESSI''\<rparr>,
      \<lparr>p_x = width * 0.78, p_y = height * 0.46, p_hue = 140, p_label = ''NEYMAR''\<rparr>,
      \<lparr>p_x = width * 0.35, p_y = height * 0.25, p_hue = 280,
       p_label = ''MBAPP'' @ [CHR 0xC3, CHR 0x83, CHR 0xE2, CHR 0x80, CHR 0xB0]\<rparr>,
      \<lparr>p_x = width * 0.65, p_y = height * 0.2, p_hue = 20, p_label = ''HAALAND''\<rparr>]"

definition portal_calls :: "real \<Rightarrow> real \<Rightarrow> real \<Rightarrow> nat \<times> portal \<Rightarrow> call list" where
  "portal_calls width t pulse ip =
     (let index = fst ip; portal = snd ip;
          portalStart = 18; portalEnd = 31;
          portalDuration = portalEnd - portalStart;
          appearDelay = real index * 0.5;
          progress = clamp ((t - portalStart - appearDelay) / (portalDuration - appearDelay)) 0 1;
          radius = 90 + progress * 70;
          swirlCount = 6
      in [Save,
          SetGlobalCompositeOperation ''lighter'',
          SetLineWidth (4 + pulse * 3),
          SetStrokeStyle (Color (Hsla (p_hue portal) 90 (50 + pulse * 20) (0.5 + progress * 0.4))),
          BeginPath,
          Arc (p_x portal) (p_y portal) radius 0 (pi * 2),
          Stroke,
          SetLineWidth 2,
          SetStrokeStyle (Color (Hsla (p_hue portal) 100 (70 + pulse * 10) 0.6))]
         @ concat (map (\<lambda>i. let angle = (real i / swirlCount) * pi * 2 + t * 0.8
                            in [BeginPath,
                                Arc (p_x portal + cos angle * radius * 0.3)
                                    (p_y portal + sin angle * radius * 0.3)
                                    (radius * 0.4)
                                    angle
                                    (angle + pi / 1.6),
                                Stroke])
                       [0..<6])
         @ [SetFillStyle (Color (Hsla (p_hue portal) 100 (25 + pulse * 20) (0.6 + progress * 0.3))),
            BeginPath,
            Ellipse (p_x portal) (p_y portal) (30 + progress * 20) (60 + progress * 30) 0 0 (pi * 2),
            Fill,
            SetFillStyle (Color (Rgba 10 10 12 0.9)),
            BeginPath,
            Arc (p_x portal) (p_y portal - 50 - progress * 10) (14 + progress * 4) 0 (pi * 2),
            Fill,
            SetFillStyle (Color (Rgba 255 255 255 0.8)),
            SetFont ''600'' (max 16 (width * 0.012)) [''Rajdhani'', ''sans-serif''],
            SetTextAlign ''center'',
            FillText (p_label portal) (p_x portal) (p_y portal + 90 + progress * 40),
            Restore])"

definition drawPortals_calls :: "real \<Rightarrow> real \<Rightarrow> real \<Rightarrow> call list" where
  "drawPortals_calls width height t =
     (let portalStart = 18
      in if t < portalStart then []
         else
           let pulse = sin (t * 4) * 0.5 + 0.5;
               positions = portal_positions width height
           in concat (map (portal_calls width t pulse) (enumerate 0 positions)))"

definition drawPortals :: "SceneContext \<Rightarrow> SceneContext" where
  "drawPortals scene =
     scene\<lparr>sc_ctx := sc_ctx scene
                        @ drawPortals_calls (sc_width scene) (sc_height scene) (sc_t scene)\<rparr>"

subsection \<open>Monsters\<close>

record monster =
  m_x :: real
  m_y :: real
  m_scale :: real
  m_hue :: real

definition monsterStart :: real where
  "monsterStart = 24"

definition monsterEnd :: real where
  "monsterEnd = 44"

definition monsterPhase :: "real \<Rightarrow> real" where
  "monsterPhase t = clamp ((t - monsterStart) / (monsterEnd - monsterStart)) 0 1"

definition monsters :: "real \<Rightarrow> real \<Rightarrow> monster list" where
  "monsters width height =
     [\<lparr>m_x = width * 0.12, m_y = height * 0.5, m_scale = 1.2, m_hue = 190\<rparr>,
      \<lparr>m_x = width * 0.88, m_y = height * 0.52, m_scale = 1.1, m_hue = 310\<rparr>,
      \<lparr>m_x = width * 0.5, m_y = height * 0.18, m_scale = 1.5, m_hue = 40\<rparr>]"

definition monster_beam :: "real \<Rightarrow> real \<Rightarrow> monster \<Rightarrow> nat \<Rightarrow> real \<Rightarrow> nat \<Rightarrow> call list" where
  "monster_beam height t monster index msize i =
     (let beamCount = 3;
          offsetAngle = ((real i / beamCount) * pi / 4) - pi / 8;
          beamProgress = fmod (t * 1.4 + real i + real index) 1;
          beamIntensity = 0.4 + monsterPhase t * 0.6;
          beamLength = height * (0.4 + beamProgress * 0.6)
      in [SetStrokeStyle (Color (Rgba 255 (120 + real index * 40) 50 beamIntensity)),
          SetLineWidth (3 + sin (t * 8 + real i) * 1.2),
          BeginPath,
          MoveTo (m_x monster) (m_y monster - msize * 0.1),
          LineTo (m_x monster + cos (offsetAngle + beamProgress * pi) * beamLength)
                 (m_y monster + sin (offsetAngle + beamProgress * pi) * beamLength),
          Stroke])"

definition monster_calls :: "real \<Rightarrow> real \<Rightarrow> nat \<times> monster \<Rightarrow> call list" where
  "monster_calls height t im =
     (let index = fst im; monster = snd im;
          appearDelay = real index * 0.8;
          progress = clamp ((t - monsterStart - appearDelay) / (monsterEnd - monsterStart)) 0 1;
          size = 120 * m_scale monster * (0.5 + progress * 0.6);
          grad = RadialGradient (m_x monster) (m_y monster) (size * 0.3)
                                (m_x monster) (m_y monster) size
                   [(0, Hsla (m_hue monster) 80 70 0.9),
                    (0.6, Hsla (m_hue monster) 90 40 0.7),
                    (1, Rgba 0 0 0 0)]
      in [Save,
          SetGlobalAlpha (0.6 + progress * 0.4),
          SetFillStyle grad,
          BeginPath,
          Ellipse (m_x monster) (m_y monster) size (size * 0.75) 0 0 (pi * 2),
          Fill,
          SetLineWidth 4,
          SetStrokeStyle (Color (Hsla (m_hue monster) 90 80 0.7)),
          BeginPath,
          MoveTo (m_x monster - size * 0.7) (m_y monster),
          QuadraticCurveTo (m_x monster) (m_y monster - size * 0.8)
                           (m_x monster + size * 0.7) (m_y monster),
          QuadraticCurveTo (m_x monster) (m_y monster + size * 0.8)
                           (m_x monster - size * 0.7) (m_y monster),
          Stroke,
          SetFillStyle (Color (Rgba 255 80 60 (0.8 + sin (t * 6 + real index) * 0.2))),
          BeginPath,
          Arc (m_x monster) (m_y monster - size * 0.1) (size * 0.18) 0 (pi * 2),
          Fill]
         @ concat (map (monster_beam height t monster index size) [0..<3])
         @ [Restore])"

definition drawMonsters_calls :: "real \<Rightarrow> real \<Rightarrow> real \<Rightarrow> call list" where
  "drawMonsters_calls width height t =
     (if t < monsterStart then []
      else concat (map (monster_calls height t) (enumerate 0 (monsters width height))))"

definition drawMonsters :: "SceneContext \<Rightarrow> SceneContext" where
  "drawMonsters scene =
     scene\<lparr>sc_ctx := sc_ctx scene
                        @ drawMonsters_calls (sc_width scene) (sc_height scene) (sc_t scene)\<rparr>"

subsection \<open>Hero\<close>

text \<open>
  The local constants of \<^verbatim>\<open>drawHero\<close> that the envelope of the ball is made of are named
  definitions, each a function of the scene fields it is computed from.
\<close>

definition heroX :: "real \<Rightarrow> real" where
  "heroX width = width / 2"

definition heroY :: "real \<Rightarrow> real" where
  "heroY height = height * 0.65"

definition baseSize :: real where
  "baseSize = 160"

definition hero_pulse :: "real \<Rightarrow> real" where
  "hero_pulse t = sin (t * 8) * 0.5 + 0.5"

definition holdingPhase :: "real \<Rightarrow> real" where
  "holdingPhase t =
     (if t < 5 then clamp (t / 5) 0 1
      else if t < 40 then 1
      else clamp (1 - (t - 40) / 5) 0 1)"

definition ballX :: "real \<Rightarrow> real \<Rightarrow> real" where
  "ballX width t =
     heroX width
       + (if t > 5 then baseSize * 0.9 * sin (clamp ((t - 5) / 0.5) 0 1 * pi)
          else baseSize * 0.4)"

definition ballY :: "real \<Rightarrow> real" where
  "ballY height = heroY height - baseSize * 0.35"

definition ballRadius :: "real \<Rightarrow> real" where
  "ballRadius t = baseSize * (0.16 + hero_pulse t * 0.02) * holdingPhase t"

definition hero_arcs :: "real \<Rightarrow> real \<Rightarrow> real \<Rightarrow> call list" where
  "hero_arcs width height t =
     (if t > 28
      then
        let sparks = 12
        in [Save, SetGlobalAlpha (0.4 + hero_pulse t * 0.3)]
           @ concat (map (\<lambda>i. let angle = (real i / sparks) * pi * 2 + t * 2;
                                  length = baseSize * (0.6 + sin (t * 4 + real i) * 0.4)
                              in [SetStrokeStyle (Color (Rgba 120 220 255 (0.6 + hero_pulse t * 0.3))),
                                  SetLineWidth 1.6,
                                  BeginPath,
                                  MoveTo (heroX width) (heroY height - baseSize * 0.7),
                                  LineTo (heroX width + cos angle * length)
                                         (heroY height - baseSize * 0.7 + sin angle * length),
                                  Stroke])
                         [0..<12])
           @ [Restore]
      else [])"

definition hero_body :: "real \<Rightarrow> real \<Rightarrow> real \<Rightarrow> call list" where
  "hero_body width height t =
     (let glowRadius = baseSize * (0.45 + hero_pulse t * 0.1);
          glow = RadialGradient (heroX width) (heroY height) (glowRadius * 0.2)
                                (heroX width) (heroY height) glowRadius
                   [(0, Rgba 255 210 120 0.9),
                    (0.4, Rgba 255 120 40 0.7),
                    (1, Rgba 0 0 0 0)]
      in [SetFillStyle glow,
          BeginPath,
          Arc (heroX width) (heroY height) glowRadius 0 (pi * 2),
          Fill,
          SetFillStyle (Color (Rgba 15 20 30 0.95)),
          BeginPath,
          Ellipse (heroX width) (heroY height - baseSize * 0.2) (baseSize * 0.22) (baseSize * 0.55)
                  0 0 (pi * 2),
          Fill,
          SetFillStyle (Color (Rgba 255 215 120 (0.6 + hero_pulse t * 0.4))),
          BeginPath,
          MoveTo (heroX width - baseSize * 0.2) (heroY height - baseSize * 0.05),
          QuadraticCurveTo (heroX width) (heroY height - baseSize * 0.45)
                           (heroX width + baseSize * 0.2) (heroY height - baseSize * 0.05),
          QuadraticCurveTo (heroX width) (heroY height + baseSize * 0.1)
                           (heroX width - baseSize * 0.2) (heroY height - baseSize * 0.05),
          Fill,
          SetFillStyle (Color (Rgba 230 230 240 0.95)),
          BeginPath,
          Arc (heroX width) (heroY height - baseSize * 0.6) (baseSize * 0.12) 0 (pi * 2),
          Fill])"

definition hero_ball :: "real \<Rightarrow> real \<Rightarrow> real \<Rightarrow> call list" where
  "hero_ball width height t =
     (if ballRadius t > 0
      then
        let ballGradient = RadialGradient (ballX width t) (ballY height) (ballRadius t * 0.3)
                                          (ballX width t) (ballY height) (ballRadius t)
                             [(0, Rgba 255 220 140 1),
                              (0.4, Rgba 255 180 40 0.9),
                              (1, Rgba 120 60 10 0.05)]
        in [SetFillStyle ballGradient,
            BeginPath,
            Arc (ballX width t) (ballY height) (ballRadius t) 0 (pi * 2),
            Fill,
            SetStrokeStyle (Color (Rgba 255 255 200 (0.6 + hero_pulse t * 0.3))),
            SetLineWidth 2]
           @ concat (map (\<lambda>i. let angle = (real i / 5) * pi * 2 + t * 2
                              in [BeginPath,
                                  Arc (ballX width t) (ballY height)
                                      (ballRadius t * (1.2 + hero_pulse t * 0.1))
                                      angle (angle + pi / 3),
                                  Stroke])
                         [0..<5])
      else [])"

definition drawHero_calls :: "real \<Rightarrow> real \<Rightarrow> real \<Rightarrow> call list" where
  "drawHero_calls width height t =
     hero_arcs width height t @ hero_body width height t @ hero_ball width height t"

definition drawHero :: "SceneContext \<Rightarrow> SceneContext" where
  "drawHero scene =
     scene\<lparr>sc_ctx := sc_ctx scene @ drawHero_calls (sc_width scene) (sc_height scene) (sc_t scene)\<rparr>"

subsection \<open>Energy flows\<close>

text \<open>
  \<^verbatim>\<open>for (let x = 0; x <= width; x += 15) { ...; ctx.lineTo(x, y); }\<close>: the points of
  one ribbon, with the running abscissa as last argument.
\<close>

function wave_points :: "real \<Rightarrow> real \<Rightarrow> real \<Rightarrow> real \<Rightarrow> nat \<Rightarrow> real \<Rightarrow> call list" where
  "wave_points width baseY t waveT i x =
     (if x \<le> width
      then
        (let progress = x / width;
             y = baseY + sin (progress * pi * 6 + t * 3 + real i) * 20 * (1 - waveT) - waveT * 180
         in LineTo x y # wave_points width baseY t waveT i (x + 15))
      else [])"
  by pat_completeness auto
termination
proof (relation "measure (\<lambda>(width, baseY, t, waveT, i, x). nat \<lceil>width - x + 1\<rceil>)")
  show "wf (measure (\<lambda>(width, baseY, t, waveT, i, x). nat \<lceil>width - x + 1\<rceil>))"
    by simp
next
  fix width baseY t waveT :: real and i :: nat and x xa xb :: real
  assume "x \<le> width"
  then have "1 \<le> \<lceil>width - x + 1\<rceil>"
    by linarith
  moreover have "\<lceil>width - (x + 15) + 1\<rceil> = \<lceil>width - x + 1\<rceil> - 15"
    by linarith
  ultimately have "nat \<lceil>width - (x + 15) + 1\<rceil> < nat \<lceil>width - x + 1\<rceil>"
    by linarith
  then show "((width, baseY, t, waveT, i, x + 15), (width, baseY, t, waveT, i, x))
      \<in> measure (\<lambda>(width, baseY, t, waveT, i, x). nat \<lceil>width - x + 1\<rceil>)"
    by (simp only: in_measure prod.case)
qed

declare wave_points.simps [simp del]

definition energy_wave :: "real \<Rightarrow> real \<Rightarrow> real \<Rightarrow> nat \<Rightarrow> call list" where
  "energy_wave width baseY t i =
     (let waveT = fmod (t * 0.7 + real i * 0.1) 1;
          alpha = 0.15 + (1 - waveT) * 0.3
      in [SetStrokeStyle (Color (Rgba (20 + real i * 5) (160 + real i * 3) 255 alpha)),
          SetLineWidth 1.2,
          BeginPath]
         @ wave_points width baseY t waveT i 0
         @ [Stroke])"

definition energy_spark :: "real \<Rightarrow> real \<Rightarrow> real \<Rightarrow> nat \<Rightarrow> call list" where
  "energy_spark width baseY t i =
     (let seed = real i * 12.92;
          flicker = (sin (t * 10 + seed) + 1) / 2;
          x = (fmod (seed * 123.77) 1) * width;
          y = baseY + (sin (seed * 0.2 + t * 3) * 25)
      in [SetFillStyle (Color (Rgba 255 (120 + flicker * 120) (40 + flicker * 120)
                                    (0.2 + flicker * 0.3))),
          BeginPath,
          Arc x y (2 + flicker * 4) 0 (pi * 2),
          Fill])"

definition drawEnergyFlows_calls :: "real \<Rightarrow> real \<Rightarrow> real \<Rightarrow> call list" where
  "drawEnergyFlows_calls width height t =
     (let baseY = height * 0.72
      in concat (map (energy_wave width baseY t) [0..<18])
         @ concat (map (energy_spark width baseY t) [0..<70]))"

definition drawEnergyFlows :: "SceneContext \<Rightarrow> SceneContext" where
  "drawEnergyFlows scene =
     scene\<lparr>sc_ctx := sc_ctx scene
                        @ drawEnergyFlows_calls (sc_width scene) (sc_height scene) (sc_t scene)\<rparr>"

subsection \<open>Foreground effects\<close>

definition glass_shard :: "real \<Rightarrow> real \<Rightarrow> real \<Rightarrow> real \<Rightarrow> nat \<Rightarrow> call list" where
  "glass_shard impactX impactY t finaleProgress i =
     (let angle = (real i / 30) * pi * 2 + t * 2;
          dist = 60 + finaleProgress * 220 + sin (t * 4 + real i) * 30;
          shardX = impactX + cos angle * dist;
          shardY = impactY + sin angle * dist
      in [SetFillStyle (Color (Rgba (120 + real i * 4) (160 + real i * 3) 255 0.6)),
          BeginPath,
          MoveTo shardX shardY,
          LineTo (shardX + cos (angle + 0.3) * 18) (shardY + sin (angle + 0.3) * 18),
          LineTo (shardX + cos (angle - 0.2) * 12) (shardY + sin (angle - 0.2) * 12),
          ClosePath,
          Fill])"

definition drawForegroundEffects_calls :: "real \<Rightarrow> real \<Rightarrow> real \<Rightarrow> call list" where
  "drawForegroundEffects_calls width height t =
     (let finaleStart = 38
      in if t < finaleStart then []
         else
           let finaleProgress = clamp ((t - finaleStart) / 7) 0 1;
               beamAngle = - pi / 6;
               beamLength = width * 0.8;
               grad = LinearGradient (heroX width) (heroY height)
                                     (heroX width + cos beamAngle * beamLength)
                                     (heroY height + sin beamAngle * beamLength)
                        [(0, Rgba 255 250 210 0.8),
                         (0.3, Rgba 255 180 80 0.9),
                         (0.7, Rgba 80 140 255 (0.7 + finaleProgress * 0.3)),
                         (1, Rgba 0 0 0 0)];
               impactX = heroX width + cos beamAngle * beamLength;
               impactY = heroY height + sin beamAngle * beamLength;
               impactRadius = 120 + finaleProgress * 180;
               impactGradient = RadialGradient impactX impactY (impactRadius * 0.1)
                                               impactX impactY impactRadius
                                  [(0, Rgba 255 255 255 (0.9 - finaleProgress * 0.2)),
                                   (0.4, Rgba 255 200 120 0.6),
                                   (1, Rgba 0 0 0 0)]
           in [Save,
               SetGlobalCompositeOperation ''screen'',
               SetFillStyle grad,
               BeginPath,
               MoveTo (heroX width - 20) (heroY height - 10),
               LineTo (heroX width + cos beamAngle * beamLength)
                      (heroY height + sin beamAngle * beamLength - 80),
               LineTo (heroX width + cos beamAngle * beamLength)
                      (heroY height + sin beamAngle * beamLength + 80),
               LineTo (heroX width + 20) (heroY height + 10),
               ClosePath,
               Fill,
               SetFillStyle impactGradient,
               BeginPath,
               Arc impactX impactY impactRadius 0 (pi * 2),
               Fill,
               SetGlobalAlpha (0.8 - finaleProgress * 0.3)]
              @ concat (map (glass_shard impactX impactY t finaleProgress) [0..<30])
              @ [Restore])"

definition drawForegroundEffects :: "SceneContext \<Rightarrow> SceneContext" where
  "drawForegroundEffects scene =
     scene\<lparr>sc_ctx := sc_ctx scene
                        @ drawForegroundEffects_calls (sc_width scene) (sc_height scene) (sc_t scene)\<rparr>"

subsection \<open>The frame\<close>

text \<open>
  \<^verbatim>\<open>renderFrame(ctx, canvas, tSeconds, buildings, billboards)\<close>: the canvas enters through
  its \<^verbatim>\<open>clientWidth\<close> and \<^verbatim>\<open>clientHeight\<close>, the context through the calls already made on
  it. The result is the context after the frame.
\<close>

definition renderFrame ::
  "call list \<Rightarrow> real \<Rightarrow> real \<Rightarrow> real \<Rightarrow> Building list \<Rightarrow> Billboard list \<Rightarrow> call list" where
  "renderFrame ctx clientWidth clientHeight tSeconds buildings billboards =
     (let width = clientWidth;
          height = clientHeight;
          ctx1 = ctx @ [ClearRect 0 0 width height];
          scene = \<lparr>sc_ctx = ctx1, sc_width = width, sc_height = height, sc_t = tSeconds,
                   sc_buildings = buildings, sc_billboards = billboards\<rparr>;
          scene1 = drawSkies scene;
          scene2 = drawCity scene1;
          scene3 = drawShockwave scene2;
          scene4 = drawArena scene3;
          scene5 = drawPortals scene4;
          scene6 = drawMonsters scene5;
          scene7 = drawHero scene6;
          scene8 = drawEnergyFlows scene7;
          scene9 = drawForegroundEffects scene8
      in sc_ctx scene9)"

section \<open>Resizing a picture\<close>

text \<open>
  What the specification calls geometry "scaled uniformly by \<open>k\<close>": every coordinate and every
  length of a call (positions, radii, extents, line widths, font sizes, blur radii, the
  displacement of a translation) is multiplied by \<open>k\<close>; angles, colours, opacities and the
  order of the calls stay. \<open>shift_call\<close> is the companion that moves every position by a fixed
  displacement and leaves every length alone.
\<close>

fun scale_style :: "real \<Rightarrow> style \<Rightarrow> style" where
  "scale_style k (Color c) = Color c"
| "scale_style k (LinearGradient x0 y0 x1 y1 stops) =
     LinearGradient (k * x0) (k * y0) (k * x1) (k * y1) stops"
| "scale_style k (RadialGradient x0 y0 r0 x1 y1 r1 stops) =
     RadialGradient (k * x0) (k * y0) (k * r0) (k * x1) (k * y1) (k * r1) stops"

fun scale_call :: "real \<Rightarrow> call \<Rightarrow> call" where
  "scale_call k (ClearRect x y w h) = ClearRect (k * x) (k * y) (k * w) (k * h)"
| "scale_call k (FillRect x y w h) = FillRect (k * x) (k * y) (k * w) (k * h)"
| "scale_call k (StrokeRect x y w h) = StrokeRect (k * x) (k * y) (k * w) (k * h)"
| "scale_call k (SetFillStyle s) = SetFillStyle (scale_style k s)"
| "scale_call k (SetStrokeStyle s) = SetStrokeStyle (scale_style k s)"
| "scale_call k (SetLineWidth w) = SetLineWidth (k * w)"
| "scale_call k (SetGlobalAlpha a) = SetGlobalAlpha a"
| "scale_call k (SetGlobalCompositeOperation m) = SetGlobalCompositeOperation m"
| "scale_call k (SetFont weight px families) = SetFont weight (k * px) families"
| "scale_call k (SetTextAlign a) = SetTextAlign a"
| "scale_call k (SetShadowColor c) = SetShadowColor c"
| "scale_call k (SetShadowBlur b) = SetShadowBlur (k * b)"
| "scale_call k (FillText s x y) = FillText s (k * x) (k * y)"
| "scale_call k Save = Save"
| "scale_call k Restore = Restore"
| "scale_call k (Translate dx dy) = Translate (k * dx) (k * dy)"
| "scale_call k (Scale sx sy) = Scale sx sy"
| "scale_call k (Rotate a) = Rotate a"
| "scale_call k BeginPath = BeginPath"
| "scale_call k ClosePath = ClosePath"
| "scale_call k Fill = Fill"
| "scale_call k Stroke = Stroke"
| "scale_call k (MoveTo x y) = MoveTo (k * x) (k * y)"
| "scale_call k (LineTo x y) = LineTo (k * x) (k * y)"
| "scale_call k (QuadraticCurveTo cx cy x y) = QuadraticCurveTo (k * cx) (k * cy) (k * x) (k * y)"
| "scale_call k (Arc x y r a0 a1) = Arc (k * x) (k * y) (k * r) a0 a1"
| "scale_call k (Ellipse x y rx ry rot a0 a1) = Ellipse (k * x) (k * y) (k * rx) (k * ry) rot a0 a1"

fun shift_style :: "real \<Rightarrow> real \<Rightarrow> style \<Rightarrow> style" where
  "shift_style dx dy (Color c) = Color c"
| "shift_style dx dy (LinearGradient x0 y0 x1 y1 stops) =
     LinearGradient (x0 + dx) (y0 + dy) (x1 + dx) (y1 + dy) stops"
| "shift_style dx dy (RadialGradient x0 y0 r0 x1 y1 r1 stops) =
     RadialGradient (x0 + dx) (y0 + dy) r0 (x1 + dx) (y1 + dy) r1 stops"

fun shift_call :: "real \<Rightarrow> real \<Rightarrow> call \<Rightarrow> call" where
  "shift_call dx dy (ClearRect x y w h) = ClearRect (x + dx) (y + dy) w h"
| "shift_call dx dy (FillRect x y w h) = FillRect (x + dx) (y + dy) w h"
| "shift_call dx dy (StrokeRect x y w h) = StrokeRect (x + dx) (y + dy) w h"
| "shift_call dx dy (SetFillStyle s) = SetFillStyle (shift_style dx dy s)"
| "shift_call dx dy (SetStrokeStyle s) = SetStrokeStyle (shift_style dx dy s)"
| "shift_call dx dy (FillText s x y) = FillText s (x + dx) (y + dy)"
| "shift_call dx dy (MoveTo x y) = MoveTo (x + dx) (y + dy)"
| "shift_call dx dy (LineTo x y) = LineTo (x + dx) (y + dy)"
| "shift_call dx dy (QuadraticCurveTo cx cy x y) =
     QuadraticCurveTo (cx + dx) (cy + dy) (x + dx) (y + dy)"
| "shift_call dx dy (Arc x y r a0 a1) = Arc (x + dx) (y + dy) r a0 a1"
| "shift_call dx dy (Ellipse x y rx ry rot a0 a1) = Ellipse (x + dx) (y + dy) rx ry rot a0 a1"
| "shift_call dx dy c = c"

section \<open>Timeline overlay (HudOverlay.tsx)\<close>

record marker =
  time :: real
  label :: string

definition TIMELINE :: "marker list" where
  "TIMELINE =
     [\<lparr>time = 0, label = ''Times Square Awakens''\<rparr>,
      \<lparr>time = 5, label = ''Shockwave Kick''\<rparr>,
      \<lparr>time = 12, label = ''Arena Transformation''\<rparr>,
      \<lparr>time = 20, label = ''Superhero Allies''\<rparr>,
      \<lparr>time = 28, label = ''Monster Siege''\<rparr>,
      \<lparr>time = 38, label = ''Final Mega Kick''\<rparr>]"

definition TOTAL :: real where
  "TOTAL = 45"

text \<open>
  \<^verbatim>\<open>let current = ms[0]; for (const m of ms) { if (elapsed >= m.time) current = m; }\<close>
  The source scans the constant \<^verbatim>\<open>TIMELINE\<close>; the scan itself is written over any list so
  that it can be reasoned about by induction.
\<close>

definition scan_markers :: "marker list \<Rightarrow> real \<Rightarrow> marker" where
  "scan_markers ms elapsed =
     foldl (\<lambda>current m. if elapsed \<ge> time m then m else current) (ms ! 0) ms"

definition activeMarker :: "real \<Rightarrow> marker" where
  "activeMarker elapsed = scan_markers TIMELINE elapsed"

text \<open>
  The overlay's clock: \<^verbatim>\<open>((time - start) % (TOTAL * 1000)) / 1000\<close>, with the
  frame timestamp named \<open>now\<close> here.
\<close>

definition hud_elapsed :: "real \<Rightarrow> real \<Rightarrow> real" where
  "hud_elapsed now start = fmod (now - start) (TOTAL * 1000) / 1000"

section \<open>A polynomial below the sine\<close>

text \<open>
  The pseudo-random seeds of the scene generator are sines of large arguments. To evaluate
  one of them, the sine is enclosed by its Maclaurin polynomial of degree 21 minus the
  remainder bound of order 22, written in nested form so that it can be evaluated at a
  rational argument with small intermediate numbers.
\<close>

definition sin_below :: "real \<Rightarrow> real" where
  "sin_below x =
     x * (1 - x * x / 6 * (1 - x * x / 20 * (1 - x * x / 42 * (1 - x * x / 72 * (1 - x * x /
     110 * (1 - x * x / 156 * (1 - x * x / 210 * (1 - x * x / 272 * (1 - x * x / 342 * (1 -
     x * x / 420 * (1 - x / 22)))))))))))"

section \<open>Properties of the loop clock and the timeline\<close>

lemma fmod_nonneg: "0 \<le> a \<Longrightarrow> 0 < b \<Longrightarrow> fmod a b = b * frac (a / b)"
  by (simp add: fmod_def js_trunc_def frac_def algebra_simps)

lemma fmod_neg: "a < 0 \<Longrightarrow> 0 < b \<Longrightarrow> fmod a b = a - b * of_int \<lceil>a / b\<rceil>"
proof -
  assume "a < 0" "0 < b"
  then have "a / b < 0" by (rule divide_neg_pos)
  then show ?thesis by (simp add: fmod_def js_trunc_def)
qed

lemma fmod_small: "0 \<le> a \<Longrightarrow> a < b \<Longrightarrow> fmod a b = a"
proof -
  assume a: "0 \<le> a" "a < b"
  then have "0 \<le> a / b" "a / b < 1" by auto
  then have "\<lfloor>a / b\<rfloor> = 0" by linarith
  with a show ?thesis by (simp add: fmod_def js_trunc_def)
qed

lemma frac_bounds: "0 \<le> frac (x::real)" "frac x < 1"
  by (simp_all add: frac_lt_1)

lemma wrapTime_frac:
  assumes L: "0 < L"
  shows "wrapTime x L = L * frac (x / L)"
proof (cases "0 \<le> x")
  case True
  have f: "fmod x L = L * frac (x / L)" using True L by (rule fmod_nonneg)
  have "0 \<le> L * frac (x / L)" using L by (simp add: frac_bounds)
  then have nn: "0 \<le> L * frac (x / L) + L" using L by linarith
  have "fmod (L * frac (x / L) + L) L = L * frac ((L * frac (x / L) + L) / L)"
    using nn L by (rule fmod_nonneg)
  also have "(L * frac (x / L) + L) / L = frac (x / L) + 1"
    using L by (simp add: field_simps)
  also have "frac (frac (x / L) + 1) = frac (x / L)"
    by (simp add: frac_def)
  finally show ?thesis by (simp add: wrapTime_def f)
next
  case False
  then have neg: "x < 0" by simp
  show ?thesis
  proof (cases "x / L \<in> \<int>")
    case True
    then have c: "of_int \<lceil>x / L\<rceil> = x / L" by (metis Ints_cases ceiling_of_int)
    have "fmod x L = x - L * of_int \<lceil>x / L\<rceil>" using neg L by (rule fmod_neg)
    then have "fmod x L = x - L * (x / L)" by (simp only: c)
    then have "fmod x L = 0" using L by simp
    moreover have "fmod L L = 0" using L by (simp add: fmod_def js_trunc_def)
    moreover have "frac (x / L) = 0" using True by (simp add: frac_eq_0_iff)
    ultimately show ?thesis by (simp add: wrapTime_def)
  next
    case notint: False
    have "x / L \<noteq> of_int \<lfloor>x / L\<rfloor>" using notint by (metis Ints_of_int)
    then have c: "\<lceil>x / L\<rceil> = \<lfloor>x / L\<rfloor> + 1"
      by (simp add: ceiling_altdef)
    have f: "fmod x L = L * frac (x / L) - L"
      using neg L c by (simp add: fmod_neg frac_def algebra_simps)
    have pos: "0 < frac (x / L)" using notint
      by (metis frac_bounds(1) frac_eq_0_iff less_eq_real_def)
    have "fmod (L * frac (x / L)) L = L * frac (x / L)"
      using L pos frac_bounds(2)[of "x / L"] by (intro fmod_small) auto
    then show ?thesis by (simp add: wrapTime_def f)
  qed
qed

lemma wrapTime_range: "0 < L \<Longrightarrow> 0 \<le> wrapTime x L \<and> wrapTime x L < L"
  by (simp add: wrapTime_frac frac_bounds)

lemma wrapTime_periodic: "0 < L \<Longrightarrow> wrapTime (x + L) L = wrapTime x L"
proof -
  assume L: "0 < L"
  have "(x + L) / L = x / L + 1" using L by (simp add: field_simps)
  then have "frac ((x + L) / L) = frac (x / L)" by (simp add: frac_def)
  then show ?thesis using L by (simp add: wrapTime_frac)
qed

lemma wrapTime_id: "0 \<le> x \<Longrightarrow> x < L \<Longrightarrow> wrapTime x L = x"
proof -
  assume a: "0 \<le> x" "x < L"
  then have L: "0 < L" by simp
  have "0 \<le> x / L" "x / L < 1" using a by auto
  then have "frac (x / L) = x / L" by (simp add: frac_eq)
  then show ?thesis using L by (simp add: wrapTime_frac)
qed

text \<open>
  Claim C7. For every real \<open>x\<close> and every loop length \<open>L > 0\<close>, \<open>wrapTime x L\<close> lies in
  \<open>[0, L)\<close>, and \<open>wrapTime\<close> is periodic with period \<open>L\<close>; on \<open>[0, 45000)\<close> with the loop
  length \<open>TOTAL_DURATION\<close> it is the identity.
\<close>

theorem wrapTime_loop_clock:
  "0 < L \<Longrightarrow>
     (0 \<le> wrapTime x L \<and> wrapTime x L < L) \<and>
     wrapTime (x + L) L = wrapTime x L \<and>
     (0 \<le> t \<and> t < TOTAL_DURATION \<longrightarrow> wrapTime t TOTAL_DURATION = t)"
  using wrapTime_range[of L x] wrapTime_periodic[of L x] wrapTime_id[of t TOTAL_DURATION]
  by simp

theorem wrapTime_loop_clock_witness:
  "(0::real) < 45000 \<and>
   wrapTime (- 250.5) 45000 = 44749.5 \<and>
   wrapTime (- 250.5 + 45000) 45000 = wrapTime (- 250.5) 45000 \<and>
   wrapTime 120.5 TOTAL_DURATION = 120.5"
proof -
  have "wrapTime (- 250.5) 45000 = 44749.5"
    by (simp add: wrapTime_def fmod_def js_trunc_def)
  moreover have "(0::real) \<le> 120.5 \<and> (120.5::real) < TOTAL_DURATION"
    by (simp add: TOTAL_DURATION_def)
  ultimately show ?thesis
    using wrapTime_loop_clock [of 45000 "- 250.5" "120.5"] by simp
qed

text \<open>
  Claim C9. The renderer's \<open>TOTAL_DURATION\<close> (milliseconds) and the overlay's \<open>TOTAL\<close>
  (seconds) are the same 45 seconds: \<open>TOTAL_DURATION = TOTAL * 1000 = 45000\<close>.
\<close>

theorem total_duration_agree: "TOTAL_DURATION = TOTAL * 1000 \<and> TOTAL_DURATION = 45000 \<and> TOTAL = 45"
  by (simp add: TOTAL_DURATION_def TOTAL_def)

lemma scan_foldl_last:
  "foldl (\<lambda>current m. if e \<ge> time m then m else current) c ms =
     (if filter (\<lambda>m. time m \<le> e) ms = [] then c else last (filter (\<lambda>m. time m \<le> e) ms))"
  by (induction ms arbitrary: c) simp_all

text \<open>
  Claim C6. Over the fixed marker list, whose times are \<open>[0, 5, 12, 20, 28, 38]\<close>, the active
  marker is the last one whose time is at most the elapsed time: at 0 and at 4.999 the
  first, at 5 the second, at 44.999 the last, and when the overlay's clock has wrapped past
  45 seconds back to 0, the first again.
\<close>

theorem activeMarker_selection:
  "map time TIMELINE = [0, 5, 12, 20, 28, 38] \<and>
   (0 \<le> elapsed \<longrightarrow>
      activeMarker elapsed = last (filter (\<lambda>m. time m \<le> elapsed) TIMELINE)) \<and>
   activeMarker 0 = TIMELINE ! 0 \<and>
   activeMarker 4.999 = TIMELINE ! 0 \<and>
   activeMarker 5 = TIMELINE ! 1 \<and>
   activeMarker 44.999 = TIMELINE ! 5 \<and>
   activeMarker (hud_elapsed (start + 45000) start) = TIMELINE ! 0"
proof -
  have times: "map time TIMELINE = [0, 5, 12, 20, 28, 38]"
    by (simp add: TIMELINE_def)
  have general: "activeMarker elapsed = last (filter (\<lambda>m. time m \<le> elapsed) TIMELINE)"
    if "0 \<le> elapsed"
  proof -
    have "filter (\<lambda>m. time m \<le> elapsed) TIMELINE \<noteq> []"
      using that by (simp add: TIMELINE_def)
    then show ?thesis
      by (simp add: activeMarker_def scan_markers_def scan_foldl_last)
  qed
  have wrap: "hud_elapsed (start + 45000) start = 0"
    by (simp add: hud_elapsed_def TOTAL_def fmod_def js_trunc_def)
  have points: "activeMarker 0 = TIMELINE ! 0" "activeMarker 4.999 = TIMELINE ! 0"
    "activeMarker 5 = TIMELINE ! 1" "activeMarker 44.999 = TIMELINE ! 5"
    by (simp_all add: activeMarker_def scan_markers_def TIMELINE_def)
  show ?thesis using times general wrap points by simp
qed

theorem activeMarker_selection_witness:
  "(0::real) \<le> 13 \<and> label (activeMarker 13) = ''Arena Transformation''"
  using activeMarker_selection [of 13]
  by (simp add: TIMELINE_def)

section \<open>Properties of the draw passes\<close>

lemma upt_0_3: "[0..<3] = [0, 1, 2]"
  by code_simp

lemma upt_0_5: "[0..<5] = [0, 1, 2, 3, 4]"
  by code_simp

lemma clamp_unit_low: "v \<le> 0 \<Longrightarrow> clamp v 0 1 = 0"
  by (simp add: clamp_def)

lemma clamp_unit_high: "1 \<le> v \<Longrightarrow> clamp v 0 1 = 1"
  by (simp add: clamp_def)

lemma clamp_unit_mid: "0 \<le> v \<Longrightarrow> v \<le> 1 \<Longrightarrow> clamp v 0 1 = v"
  by (simp add: clamp_def)

text \<open>
  Claim C4. The radius factor \<open>holdingPhase\<close> of the hero's ball is 0 at \<open>t = 0\<close>, grows to
  exactly 1 at \<open>t = 5\<close>, is exactly 1 on \<open>[5, 40]\<close>, decreases linearly on \<open>(40, 45)\<close> and tends
  to 0 as \<open>t\<close> approaches 45.
\<close>

theorem holdingPhase_envelope:
  "holdingPhase 0 = 0 \<and>
   (0 \<le> t \<and> t < 5 \<longrightarrow> holdingPhase t = t / 5) \<and>
   holdingPhase 5 = 1 \<and>
   (5 \<le> t \<and> t \<le> 40 \<longrightarrow> holdingPhase t = 1) \<and>
   (40 < t \<and> t < 45 \<longrightarrow> holdingPhase t = 1 - (t - 40) / 5) \<and>
   (\<forall>\<epsilon>>0. \<exists>\<delta>>0. \<forall>s. 45 - \<delta> < s \<and> s < 45 \<longrightarrow> \<bar>holdingPhase s\<bar> < \<epsilon>)"
proof -
  have grow: "holdingPhase t = t / 5" if "0 \<le> t" "t < 5"
    using that by (simp add: holdingPhase_def clamp_unit_mid)
  have hold: "holdingPhase t = 1" if "5 \<le> t" "t \<le> 40"
    using that by (simp add: holdingPhase_def clamp_def)
  have shrink: "holdingPhase s = 1 - (s - 40) / 5" if "40 < s" "s < 45" for s
    using that by (simp add: holdingPhase_def clamp_unit_mid)
  have limit: "\<exists>\<delta>>0. \<forall>s. 45 - \<delta> < s \<and> s < 45 \<longrightarrow> \<bar>holdingPhase s\<bar> < \<epsilon>" if "0 < \<epsilon>" for \<epsilon> :: real
  proof (intro exI conjI allI impI)
    show "0 < min 5 (5 * \<epsilon>)" using that by simp
  next
    fix s :: real
    assume a: "45 - min 5 (5 * \<epsilon>) < s \<and> s < 45"
    then have s: "40 < s" "s < 45" "45 - 5 * \<epsilon> < s" by auto
    then have "holdingPhase s = (45 - s) / 5" using shrink[of s] by (simp add: field_simps)
    moreover have "0 \<le> (45 - s) / 5" "(45 - s) / 5 < \<epsilon>" using s by simp_all
    ultimately show "\<bar>holdingPhase s\<bar> < \<epsilon>" by simp
  qed
  have "holdingPhase 0 = 0" "holdingPhase 5 = 1"
    by (simp_all add: holdingPhase_def clamp_def)
  then show ?thesis using grow hold shrink limit by blast
qed

theorem holdingPhase_envelope_witness:
  "holdingPhase 2 = 2 / 5 \<and> holdingPhase 20 = 1 \<and> holdingPhase 40 = 1 \<and>
   holdingPhase 42 = 3 / 5 \<and>
   (\<exists>\<delta>>0. \<forall>s. 45 - \<delta> < s \<and> s < 45 \<longrightarrow> \<bar>holdingPhase s\<bar> < 1 / 100)"
proof -
  have pts: "holdingPhase 2 = 2 / 5" "holdingPhase 20 = 1" "holdingPhase 40 = 1"
    "holdingPhase 42 = 3 / 5"
    using holdingPhase_envelope [of 2] holdingPhase_envelope [of 20]
      holdingPhase_envelope [of 40] holdingPhase_envelope [of 42]
    by simp_all
  have "\<forall>\<epsilon>>0. \<exists>\<delta>>0. \<forall>s. 45 - \<delta> < s \<and> s < 45 \<longrightarrow> \<bar>holdingPhase s\<bar> < \<epsilon>"
    using holdingPhase_envelope [of 2] by blast
  moreover have "(0::real) < 1 / 100" by simp
  ultimately have "\<exists>\<delta>>0. \<forall>s. 45 - \<delta> < s \<and> s < 45 \<longrightarrow> \<bar>holdingPhase s\<bar> < 1 / 100"
    by blast
  with pts show ?thesis by blast
qed

lemma ball_throw: "5 < t \<Longrightarrow> t < 5.5 \<Longrightarrow> ballX w t - heroX w = baseSize * 0.9 * sin ((t - 5) / 0.5 * pi)"
  by (simp add: ballX_def clamp_unit_mid)

text \<open>
  Claim C10. The horizontal offset of the ball from the hero is \<open>0.4 * baseSize\<close> on
  \<open>[0, 5]\<close>, is arbitrarily close to 0 just above \<open>t = 5\<close> (a jump at 5), peaks at
  \<open>0.9 * baseSize\<close> at \<open>t = 5.25\<close>, and is exactly 0 on \<open>[5.5, 45)\<close>: after the throw the ball
  never returns to the held offset.
\<close>

theorem ball_offset_after_throw:
  "(0 \<le> t \<and> t \<le> 5 \<longrightarrow> ballX w t - heroX w = 0.4 * baseSize) \<and>
   (\<forall>\<epsilon>>0. \<exists>\<delta>>0. \<forall>s. 5 < s \<and> s < 5 + \<delta> \<longrightarrow> \<bar>ballX w s - heroX w\<bar> < \<epsilon>) \<and>
   ballX w 5.25 - heroX w = 0.9 * baseSize \<and>
   ballX w t - heroX w \<le> 0.9 * baseSize \<and>
   (5.5 \<le> t \<and> t < 45 \<longrightarrow> ballX w t - heroX w = 0)"
proof -
  have held: "ballX w t - heroX w = 0.4 * baseSize" if "t \<le> 5"
    using that by (simp add: ballX_def)
  have after: "ballX w t - heroX w = 0" if "5.5 \<le> t"
  proof -
    have "1 \<le> (t - 5) / 0.5" using that by simp
    then have "clamp ((t - 5) / 0.5) 0 1 = 1" by (rule clamp_unit_high)
    then show ?thesis using that by (simp add: ballX_def)
  qed
  have peak: "ballX w 5.25 - heroX w = 0.9 * baseSize"
  proof -
    have "(5.25 - 5) / 0.5 * pi = pi / 2" by simp
    then have "sin ((5.25 - 5) / 0.5 * pi) = 1" by (simp only: sin_pi_half)
    then show ?thesis using ball_throw [of "5.25" w] by simp
  qed
  have bound: "ballX w t - heroX w \<le> 0.9 * baseSize"
  proof (cases "t > 5")
    case True
    have "sin (clamp ((t - 5) / 0.5) 0 1 * pi) \<le> 1" by simp
    then have "baseSize * 0.9 * sin (clamp ((t - 5) / 0.5) 0 1 * pi) \<le> baseSize * 0.9 * 1"
      by (intro mult_left_mono) (simp_all add: baseSize_def)
    then show ?thesis using True by (simp add: ballX_def)
  next
    case False
    then show ?thesis by (simp add: ballX_def baseSize_def)
  qed
  have jump: "\<exists>\<delta>>0. \<forall>s. 5 < s \<and> s < 5 + \<delta> \<longrightarrow> \<bar>ballX w s - heroX w\<bar> < \<epsilon>" if e: "0 < \<epsilon>" for \<epsilon> :: real
  proof (intro exI conjI allI impI)
    show "0 < min (1 / 2) (\<epsilon> / 1152)" using e by simp
  next
    fix s :: real
    assume a: "5 < s \<and> s < 5 + min (1 / 2) (\<epsilon> / 1152)"
    then have s: "5 < s" "s < 5.5" "s - 5 < \<epsilon> / 1152" by auto
    let ?x = "(s - 5) / 0.5 * pi"
    have x0: "0 \<le> ?x" using s by simp
    have "\<bar>sin ?x\<bar> \<le> \<bar>?x\<bar>" by (rule abs_sin_x_le_abs_x)
    then have "\<bar>sin ?x\<bar> \<le> ?x" using x0 by simp
    also have "?x \<le> (s - 5) / 0.5 * 4"
      using s pi_less_4 by (intro mult_left_mono) simp_all
    finally have "\<bar>sin ?x\<bar> \<le> 8 * (s - 5)" by simp
    then have "\<bar>baseSize * 0.9 * sin ?x\<bar> \<le> 144 * (8 * (s - 5))"
      by (simp add: baseSize_def abs_mult)
    also have "\<dots> < \<epsilon>" using s by simp
    finally show "\<bar>ballX w s - heroX w\<bar> < \<epsilon>"
      using ball_throw[of s w] s by simp
  qed
  show ?thesis using held after peak bound jump by blast
qed

theorem ball_offset_after_throw_witness:
  "ballX 800 3 - heroX 800 = 0.4 * baseSize \<and>
   ballX 800 20 - heroX 800 = 0 \<and>
   (\<exists>\<delta>>0. \<forall>s. 5 < s \<and> s < 5 + \<delta> \<longrightarrow> \<bar>ballX 800 s - heroX 800\<bar> < 1 / 100)"
proof -
  have pts: "ballX 800 3 - heroX 800 = 0.4 * baseSize" "ballX 800 20 - heroX 800 = 0"
    using ball_offset_after_throw [of 3 800] ball_offset_after_throw [of 20 800]
    by simp_all
  have "\<forall>\<epsilon>>0. \<exists>\<delta>>0. \<forall>s. 5 < s \<and> s < 5 + \<delta> \<longrightarrow> \<bar>ballX 800 s - heroX 800\<bar> < \<epsilon>"
    using ball_offset_after_throw [of 3 800] by blast
  moreover have "(0::real) < 1 / 100" by simp
  ultimately have "\<exists>\<delta>>0. \<forall>s. 5 < s \<and> s < 5 + \<delta> \<longrightarrow> \<bar>ballX 800 s - heroX 800\<bar> < 1 / 100"
    by blast
  with pts show ?thesis by blast
qed

lemma easeInOut_0: "easeInOut 0 = 0"
  by (simp add: easeInOut_def)

lemma easeInOut_1: "easeInOut 1 = 1"
  by (simp add: easeInOut_def)

text \<open>
  Claim C5. The Shockwave pass draws nothing for \<open>t < 5\<close>; at exactly \<open>t = 5\<close> it draws its
  zero-progress state (radius 0) instead of skipping; at \<open>t = 11\<close> and for every later \<open>t\<close>
  the progress is clamped at 1, so the radius is \<open>max width height * 1.2\<close> and is never
  extrapolated.
\<close>

theorem drawShockwave_window:
  "(t < 5 \<longrightarrow> drawShockwave_calls w h t = []) \<and>
   drawShockwave_calls w h 5 =
     [SetFillStyle (RadialGradient (w / 2) (h * 0.65) 0 (w / 2) (h * 0.65) 0
                      [(0, Rgba 255 220 120 0.8), (0.3, Rgba 255 120 20 0.35),
                       (0.6, Rgba 50 120 255 0.25), (1, Rgba 0 0 0 0)]),
      BeginPath,
      Arc (w / 2) (h * 0.65) 0 0 (pi * 2),
      Fill] \<and>
   (11 \<le> t \<longrightarrow>
      drawShockwave_calls w h t =
        [SetFillStyle (RadialGradient (w / 2) (h * 0.65) (max w h * 1.2 * 0.1)
                         (w / 2) (h * 0.65) (max w h * 1.2)
                         [(0, Rgba 255 220 120 0.8), (0.3, Rgba 255 120 20 0.35),
                          (0.6, Rgba 50 120 255 0.25), (1, Rgba 0 0 0 0)]),
         BeginPath,
         Arc (w / 2) (h * 0.65) (max w h * 1.2) 0 (pi * 2),
         Fill])"
proof -
  have before: "drawShockwave_calls w h t = []" if "t < 5"
    using that by (simp add: drawShockwave_calls_def Let_def)
  have "clamp ((5 - 5) / (11 - 5)) 0 1 = 0" by (simp add: clamp_def)
  then have start: "drawShockwave_calls w h 5 =
     [SetFillStyle (RadialGradient (w / 2) (h * 0.65) 0 (w / 2) (h * 0.65) 0
                      [(0, Rgba 255 220 120 0.8), (0.3, Rgba 255 120 20 0.35),
                       (0.6, Rgba 50 120 255 0.25), (1, Rgba 0 0 0 0)]),
      BeginPath,
      Arc (w / 2) (h * 0.65) 0 0 (pi * 2),
      Fill]"
    by (simp add: drawShockwave_calls_def easeInOut_0 lerp_def Let_def)
  have full: "drawShockwave_calls w h t =
        [SetFillStyle (RadialGradient (w / 2) (h * 0.65) (max w h * 1.2 * 0.1)
                         (w / 2) (h * 0.65) (max w h * 1.2)
                         [(0, Rgba 255 220 120 0.8), (0.3, Rgba 255 120 20 0.35),
                          (0.6, Rgba 50 120 255 0.25), (1, Rgba 0 0 0 0)]),
         BeginPath,
         Arc (w / 2) (h * 0.65) (max w h * 1.2) 0 (pi * 2),
         Fill]" if "11 \<le> t"
  proof -
    have "1 \<le> (t - 5) / (11 - 5)" using that by simp
    then have "clamp ((t - 5) / (11 - 5)) 0 1 = 1" by (simp add: clamp_def)
    moreover have "\<not> t < 5" using that by simp
    ultimately show ?thesis
      by (simp add: drawShockwave_calls_def easeInOut_1 lerp_def Let_def)
  qed
  show ?thesis using before start full by blast
qed

theorem drawShockwave_window_witness:
  "drawShockwave_calls 800 600 4.999 = [] \<and>
   Arc 400 390 960 0 (pi * 2) \<in> set (drawShockwave_calls 800 600 11.001)"
  using drawShockwave_window [of "4.999" 800 600] drawShockwave_window [of "11.001" 800 600]
  by simp

lemma length_monster_calls: "length (monster_calls h t im) = 36"
  by (simp add: monster_calls_def monster_beam_def upt_0_3 Let_def)

text \<open>
  Claim C3, as stated: the Monsters pass draws nothing for \<open>t < 24\<close> and for \<open>t > 44\<close>. The
  second half fails: at \<open>t = 44.5\<close> the pass still draws.
\<close>

theorem drawMonsters_after_end_counterexample:
  "drawMonsters_calls 800 600 44.5 \<noteq> []"
proof -
  have "length (drawMonsters_calls 800 600 44.5) = 3 * 36"
    by (simp add: drawMonsters_calls_def monsterStart_def monsters_def length_concat
        length_monster_calls)
  then show ?thesis by auto
qed

text \<open>
  Claim C3, amended. The Monsters pass is gated at its start only: it draws nothing for
  \<open>t < 24\<close>, and for every \<open>t \<ge> 24\<close>, also after 44, it draws all three monsters (36 calls
  each); the end of the window only clamps the progress, \<open>monsterPhase\<close> being 1 from
  \<open>t = 44\<close> on.
\<close>

theorem drawMonsters_gate:
  "(t < 24 \<longrightarrow> drawMonsters_calls w h t = []) \<and>
   (24 \<le> t \<longrightarrow> length (drawMonsters_calls w h t) = 3 * 36) \<and>
   (44 \<le> t \<longrightarrow> monsterPhase t = 1)"
proof -
  have "monsterPhase t = 1" if "44 \<le> t"
  proof -
    have "1 \<le> (t - 24) / (44 - 24)" using that by simp
    then show ?thesis by (simp add: monsterPhase_def monsterStart_def monsterEnd_def clamp_def)
  qed
  moreover have "length (drawMonsters_calls w h t) = 3 * 36" if "24 \<le> t"
    using that
    by (simp add: drawMonsters_calls_def monsterStart_def monsters_def length_concat
        length_monster_calls)
  moreover have "drawMonsters_calls w h t = []" if "t < 24"
    using that by (simp add: drawMonsters_calls_def monsterStart_def)
  ultimately show ?thesis by blast
qed

theorem drawMonsters_gate_witness:
  "drawMonsters_calls 800 600 23.999 = [] \<and>
   length (drawMonsters_calls 800 600 44.5) = 108 \<and>
   monsterPhase 44.5 = 1"
  using drawMonsters_gate [of "23.999" 800 600] drawMonsters_gate [of "44.5" 800 600]
  by simp

lemma renderFrame_calls:
  "renderFrame ctx w h ts bs bbs =
     ctx @ [ClearRect 0 0 w h]
       @ drawSkies_calls w h ts
       @ drawCity_calls w h ts bs bbs
       @ drawShockwave_calls w h ts
       @ drawArena_calls w h ts bbs
       @ drawPortals_calls w h ts
       @ drawMonsters_calls w h ts
       @ drawHero_calls w h ts
       @ drawEnergyFlows_calls w h ts
       @ drawForegroundEffects_calls w h ts"
  by (simp add: renderFrame_def drawSkies_def drawCity_def drawShockwave_def drawArena_def
      drawPortals_def drawMonsters_def drawHero_def drawEnergyFlows_def
      drawForegroundEffects_def)

text \<open>
  Claim C8. A frame first clears the surface and then runs the nine passes in the order Sky,
  City, Shockwave, Arena, Portals, Monsters, Hero, Energy Flows, Foreground Effects; each
  pass only appends calls to the context and leaves the time value and the layout data of
  the scene as they were.
\<close>

theorem renderFrame_passes:
  "renderFrame ctx w h ts bs bbs =
     ctx @ [ClearRect 0 0 w h]
       @ drawSkies_calls w h ts
       @ drawCity_calls w h ts bs bbs
       @ drawShockwave_calls w h ts
       @ drawArena_calls w h ts bbs
       @ drawPortals_calls w h ts
       @ drawMonsters_calls w h ts
       @ drawHero_calls w h ts
       @ drawEnergyFlows_calls w h ts
       @ drawForegroundEffects_calls w h ts \<and>
   (\<exists>calls. drawSkies scene = scene\<lparr>sc_ctx := sc_ctx scene @ calls\<rparr>) \<and>
   (\<exists>calls. drawCity scene = scene\<lparr>sc_ctx := sc_ctx scene @ calls\<rparr>) \<and>
   (\<exists>calls. drawShockwave scene = scene\<lparr>sc_ctx := sc_ctx scene @ calls\<rparr>) \<and>
   (\<exists>calls. drawArena scene = scene\<lparr>sc_ctx := sc_ctx scene @ calls\<rparr>) \<and>
   (\<exists>calls. drawPortals scene = scene\<lparr>sc_ctx := sc_ctx scene @ calls\<rparr>) \<and>
   (\<exists>calls. drawMonsters scene = scene\<lparr>sc_ctx := sc_ctx scene @ calls\<rparr>) \<and>
   (\<exists>calls. drawHero scene = scene\<lparr>sc_ctx := sc_ctx scene @ calls\<rparr>) \<and>
   (\<exists>calls. drawEnergyFlows scene = scene\<lparr>sc_ctx := sc_ctx scene @ calls\<rparr>) \<and>
   (\<exists>calls. drawForegroundEffects scene = scene\<lparr>sc_ctx := sc_ctx scene @ calls\<rparr>)"
proof -
  note order = renderFrame_calls [of ctx w h ts bs bbs]
  have "\<exists>calls. drawSkies scene = scene\<lparr>sc_ctx := sc_ctx scene @ calls\<rparr>"
    unfolding drawSkies_def by (rule exI) (rule refl)
  moreover have "\<exists>calls. drawCity scene = scene\<lparr>sc_ctx := sc_ctx scene @ calls\<rparr>"
    unfolding drawCity_def by (rule exI) (rule refl)
  moreover have "\<exists>calls. drawShockwave scene = scene\<lparr>sc_ctx := sc_ctx scene @ calls\<rparr>"
    unfolding drawShockwave_def by (rule exI) (rule refl)
  moreover have "\<exists>calls. drawArena scene = scene\<lparr>sc_ctx := sc_ctx scene @ calls\<rparr>"
    unfolding drawArena_def by (rule exI) (rule refl)
  moreover have "\<exists>calls. drawPortals scene = scene\<lparr>sc_ctx := sc_ctx scene @ calls\<rparr>"
    unfolding drawPortals_def by (rule exI) (rule refl)
  moreover have "\<exists>calls. drawMonsters scene = scene\<lparr>sc_ctx := sc_ctx scene @ calls\<rparr>"
    unfolding drawMonsters_def by (rule exI) (rule refl)
  moreover have "\<exists>calls. drawHero scene = scene\<lparr>sc_ctx := sc_ctx scene @ calls\<rparr>"
    unfolding drawHero_def by (rule exI) (rule refl)
  moreover have "\<exists>calls. drawEnergyFlows scene = scene\<lparr>sc_ctx := sc_ctx scene @ calls\<rparr>"
    unfolding drawEnergyFlows_def by (rule exI) (rule refl)
  moreover have "\<exists>calls. drawForegroundEffects scene = scene\<lparr>sc_ctx := sc_ctx scene @ calls\<rparr>"
    unfolding drawForegroundEffects_def by (rule exI) (rule refl)
  ultimately show ?thesis using order by blast
qed

lemma hero_at_zero: "hero_pulse 0 = 1 / 2" "holdingPhase 0 = 0" "ballRadius 0 = 0"
  by (simp_all add: hero_pulse_def holdingPhase_def ballRadius_def clamp_def)

lemma first_star:
  "\<exists>rest. renderFrame [] w h 0 bs bbs =
     [ClearRect 0 0 w h,
      SetFillStyle (LinearGradient 0 0 0 h
                      [(0, Rgba 10 10 60 1), (0.5, Rgba 5 10 30 0.95), (1, Rgba 0 0 8 1)]),
      FillRect 0 0 w h,
      SetFillStyle (Color (Rgba 150 80 255 0.75)),
      BeginPath,
      Arc 0 (h / 4) 2 0 (pi * 2)] @ rest"
proof -
  have "[0..<120] = 0 # [Suc 0..<120]"
    by (rule upt_conv_Cons) simp
  then have "drawSkies_calls w h 0 =
     [SetFillStyle (LinearGradient 0 0 0 h
                      [(0, Rgba 10 10 60 1), (0.5, Rgba 5 10 30 0.95), (1, Rgba 0 0 8 1)]),
      FillRect 0 0 w h,
      SetFillStyle (Color (Rgba 150 80 255 0.75)),
      BeginPath,
      Arc 0 (h / 4) 2 0 (pi * 2),
      Fill] @ concat (map (sky_star w h 0) [Suc 0..<120])"
    by (simp add: drawSkies_calls_def sky_star_def Let_def fmod_def js_trunc_def del: upt_Suc)
  then show ?thesis
    by (simp add: renderFrame_calls)
qed

text \<open>
  Claim C1, as stated: rendering at \<open>(k * width, k * height)\<close> gives the geometry of the
  draw passes at \<open>(width, height)\<close> scaled uniformly by \<open>k\<close>. Doubling an 800 by 600 frame
  does not double the picture: the first star of the sky keeps its radius of 2 pixels, and
  the Hero pass keeps its pixel sizes.
\<close>

theorem resize_frame_counterexample:
  "renderFrame [] (2 * 800) (2 * 600) 0 [] [] \<noteq> map (scale_call 2) (renderFrame [] 800 600 0 [] []) \<and>
   drawHero_calls (2 * 800) (2 * 600) 0 \<noteq> map (scale_call 2) (drawHero_calls 800 600 0)"
proof
  show "renderFrame [] (2 * 800) (2 * 600) 0 [] [] \<noteq> map (scale_call 2) (renderFrame [] 800 600 0 [] [])"
  proof
    assume eq: "renderFrame [] (2 * 800) (2 * 600) 0 [] [] =
      map (scale_call 2) (renderFrame [] 800 600 0 [] [])"
    obtain r1 where big: "renderFrame [] (2 * 800) (2 * 600) 0 [] [] =
       [ClearRect 0 0 (2 * 800) (2 * 600),
        SetFillStyle (LinearGradient 0 0 0 (2 * 600)
                        [(0, Rgba 10 10 60 1), (0.5, Rgba 5 10 30 0.95), (1, Rgba 0 0 8 1)]),
        FillRect 0 0 (2 * 800) (2 * 600),
        SetFillStyle (Color (Rgba 150 80 255 0.75)),
        BeginPath,
        Arc 0 (2 * 600 / 4) 2 0 (pi * 2)] @ r1"
      using first_star [of "2 * 800" "2 * 600" "[]" "[]"] by blast
    obtain r2 where small: "renderFrame [] 800 600 0 [] [] =
       [ClearRect 0 0 800 600,
        SetFillStyle (LinearGradient 0 0 0 600
                        [(0, Rgba 10 10 60 1), (0.5, Rgba 5 10 30 0.95), (1, Rgba 0 0 8 1)]),
        FillRect 0 0 800 600,
        SetFillStyle (Color (Rgba 150 80 255 0.75)),
        BeginPath,
        Arc 0 (600 / 4) 2 0 (pi * 2)] @ r2"
      using first_star [of 800 600 "[]" "[]"] by blast
    from eq show False
      unfolding big small by simp
  qed
next
  show "drawHero_calls (2 * 800) (2 * 600) 0 \<noteq> map (scale_call 2) (drawHero_calls 800 600 0)"
    by (simp add: drawHero_calls_def hero_arcs_def hero_body_def hero_ball_def hero_at_zero
        heroX_def heroY_def baseSize_def Let_def)
qed

lemma max_scale:
  fixes k w h :: real
  assumes "0 < k"
  shows "max (k * w) (k * h) = k * max w h" "max (k * w) (h * k) = k * max w h"
    "max (w * k) (k * h) = k * max w h" "max (w * k) (h * k) = k * max w h"
  using assms by (simp_all add: max_def)

lemma shockwave_scales:
  "0 < k \<Longrightarrow> drawShockwave_calls (k * w) (k * h) t = map (scale_call k) (drawShockwave_calls w h t)"
  by (simp add: drawShockwave_calls_def Let_def lerp_def max_scale algebra_simps)

lemma ballX_shift: "ballX w' t = ballX w t + (heroX w' - heroX w)"
  by (simp add: ballX_def)

lemma hero_arcs_shift:
  "hero_arcs w' h' t = map (shift_call (heroX w' - heroX w) (heroY h' - heroY h)) (hero_arcs w h t)"
  by (simp add: hero_arcs_def Let_def map_concat o_def algebra_simps)

lemma hero_body_shift:
  "hero_body w' h' t = map (shift_call (heroX w' - heroX w) (heroY h' - heroY h)) (hero_body w h t)"
  by (simp add: hero_body_def Let_def)

lemma hero_ball_shift:
  "hero_ball w' h' t = map (shift_call (heroX w' - heroX w) (heroY h' - heroY h)) (hero_ball w h t)"
  by (simp add: hero_ball_def Let_def map_concat o_def ballX_shift [of w' t w] ballY_def)

lemma hero_shifts:
  "drawHero_calls w' h' t = map (shift_call (heroX w' - heroX w) (heroY h' - heroY h)) (drawHero_calls w h t)"
  by (simp only: drawHero_calls_def map_append hero_arcs_shift [of w' h' t w h]
      hero_body_shift [of w' h' t w h] hero_ball_shift [of w' h' t w h])

lemma building_body_scales:
  "take 2 (city_building (k * w) (k * h) t ib) = map (scale_call k) (take 2 (city_building w h t ib))"
  by (simp add: city_building_def Let_def algebra_simps)

text \<open>
  Claim C1, amended. For every \<open>k > 0\<close>, what is computed from the frame dimensions scales
  with \<open>k\<close>: the whole Shockwave pass, and the gradient and body rectangle of every
  building. The Hero pass keeps its pixel sizes (\<open>baseSize = 160\<close>) and is only moved to
  its new anchor: its calls at \<open>(k * width, k * height)\<close> are those at \<open>(width, height)\<close>
  shifted by \<open>((k - 1) * width / 2, (k - 1) * height * 0.65)\<close>.
\<close>

theorem resize_geometry:
  "0 < k \<Longrightarrow>
     drawShockwave_calls (k * w) (k * h) t = map (scale_call k) (drawShockwave_calls w h t) \<and>
     take 2 (city_building (k * w) (k * h) t ib) =
       map (scale_call k) (take 2 (city_building w h t ib)) \<and>
     drawHero_calls (k * w) (k * h) t =
       map (shift_call ((k - 1) * w / 2) ((k - 1) * h * 0.65)) (drawHero_calls w h t)"
proof -
  assume k: "0 < k"
  have dx: "heroX (k * w) - heroX w = (k - 1) * w / 2"
    by (simp add: heroX_def algebra_simps)
  have dy: "heroY (k * h) - heroY h = (k - 1) * h * 0.65"
    by (simp add: heroY_def algebra_simps)
  have "drawHero_calls (k * w) (k * h) t =
       map (shift_call ((k - 1) * w / 2) ((k - 1) * h * 0.65)) (drawHero_calls w h t)"
    using hero_shifts [of "k * w" "k * h" t w h] by (simp only: dx dy)
  then show ?thesis
    using shockwave_scales [OF k, of w h t] building_body_scales [of k w h t ib] by blast
qed

theorem resize_geometry_witness:
  "(0::real) < 2 \<and>
   drawShockwave_calls (2 * 800) (2 * 600) 8 = map (scale_call 2) (drawShockwave_calls 800 600 8) \<and>
   drawHero_calls (2 * 800) (2 * 600) 0 = map (shift_call 400 390) (drawHero_calls 800 600 0)"
  using resize_geometry [of 2 800 600 8] resize_geometry [of 2 800 600 0]
  by simp

section \<open>Evaluating the scene generator\<close>

lemma upt_0_22:
  "[0..<22] = [0, 1, 2, 3, 4, 5, 6, 7, 8, 9, 10, 11, 12, 13, 14, 15, 16, 17, 18, 19, 20, 21]"
  by code_simp

lemma sum_lessThan_22: "(\<Sum>m<22. f m) = sum_list (map f [0..<22])"
  for f :: "nat \<Rightarrow> real"
  by (simp add: interv_sum_list_conv_sum_set_nat atLeast0LessThan del: upt.simps)

lemma sin_sum_22:
  "(\<Sum>m<22. sin_coeff m * x ^ m) =
     x - x ^ 3 / 6 + x ^ 5 / 120 - x ^ 7 / 5040 + x ^ 9 / 362880 - x ^ 11 / 39916800 + x ^
     13 / 6227020800 - x ^ 15 / 1307674368000 + x ^ 17 / 355687428096000 - x ^ 19 /
     121645100408832000 + x ^ 21 / 51090942171709440000"
  for x :: real
  by (simp add: sum_lessThan_22 upt_0_22 sin_coeff_def fact_numeral)

lemma nested_expand:
  fixes x r a1 a2 a3 a4 a5 a6 a7 a8 a9 a10 :: real
  shows "x * (1 - a1 * (1 - a2 * (1 - a3 * (1 - a4 * (1 - a5 * (1 - a6 * (1 - a7 * (1 - a8 *
         (1 - a9 * (1 - a10 * (1 - r))))))))))) =
         x - x * a1 + x * a1 * a2 - x * a1 * a2 * a3 + x * a1 * a2 * a3 * a4 - x * a1 * a2 *
         a3 * a4 * a5 + x * a1 * a2 * a3 * a4 * a5 * a6 - x * a1 * a2 * a3 * a4 * a5 * a6 *
         a7 + x * a1 * a2 * a3 * a4 * a5 * a6 * a7 * a8 - x * a1 * a2 * a3 * a4 * a5 * a6 *
         a7 * a8 * a9 + x * a1 * a2 * a3 * a4 * a5 * a6 * a7 * a8 * a9 * a10 - x * a1 * a2 *
         a3 * a4 * a5 * a6 * a7 * a8 * a9 * a10 * r"
  by (simp add: algebra_simps)

lemma monomials:
  fixes x :: real
  shows     "x * (x * x / 6) = x ^ 3 / 6"
    "x ^ 3 / 6 * (x * x / 20) = x ^ 5 / 120"
    "x ^ 5 / 120 * (x * x / 42) = x ^ 7 / 5040"
    "x ^ 7 / 5040 * (x * x / 72) = x ^ 9 / 362880"
    "x ^ 9 / 362880 * (x * x / 110) = x ^ 11 / 39916800"
    "x ^ 11 / 39916800 * (x * x / 156) = x ^ 13 / 6227020800"
    "x ^ 13 / 6227020800 * (x * x / 210) = x ^ 15 / 1307674368000"
    "x ^ 15 / 1307674368000 * (x * x / 272) = x ^ 17 / 355687428096000"
    "x ^ 17 / 355687428096000 * (x * x / 342) = x ^ 19 / 121645100408832000"
    "x ^ 19 / 121645100408832000 * (x * x / 420) = x ^ 21 / 51090942171709440000"
    "x ^ 21 / 51090942171709440000 * (x / 22) = x ^ 22 / 1124000727777607680000"
  by (simp_all add: power_numeral_reduce)

lemma sin_below_poly:
  "sin_below x =
     x - x ^ 3 / 6 + x ^ 5 / 120 - x ^ 7 / 5040 + x ^ 9 / 362880 - x ^ 11 / 39916800 + x ^
     13 / 6227020800 - x ^ 15 / 1307674368000 + x ^ 17 / 355687428096000 - x ^ 19 /
     121645100408832000 + x ^ 21 / 51090942171709440000
     - x ^ 22 / 1124000727777607680000"
  unfolding sin_below_def
  by (simp only: nested_expand [of x "x * x / 6" "x * x / 20" "x * x / 42" "x * x / 72" "x * x / 110" "x * x / 156" "x * x / 210" "x * x / 272" "x * x / 342" "x * x / 420" "x / 22"] monomials)

lemma remainder_22: "inverse (fact 22) * \<bar>x\<bar> ^ 22 = x ^ 22 / 1124000727777607680000"
  for x :: real
proof -
  have "(fact 22 :: real) = 1124000727777607680000"
    by (simp add: fact_numeral)
  moreover have "\<bar>x\<bar> ^ 22 = x ^ 22"
    by (rule power_even_abs) simp
  ultimately show ?thesis
    by (simp only: divide_inverse mult.commute)
qed

lemma abs_diff_lower: "\<bar>s - p\<bar> \<le> r \<Longrightarrow> p - r \<le> s"
  for s p r :: real
  by linarith

lemma sin_below_le: "sin_below x \<le> sin x"
proof -
  have "\<bar>sin x - (\<Sum>m<22. sin_coeff m * x ^ m)\<bar> \<le> inverse (fact 22) * \<bar>x\<bar> ^ 22"
    by (rule Maclaurin_sin_bound)
  then have "(\<Sum>m<22. sin_coeff m * x ^ m) - inverse (fact 22) * \<bar>x\<bar> ^ 22 \<le> sin x"
    by (rule abs_diff_lower)
  then show ?thesis
    by (simp only: sin_sum_22 remainder_22 sin_below_poly)
qed

lemma sin_le_above: "sin x \<le> - sin_below (- x)"
  using sin_below_le [of "- x"] by simp

lemma pi_lower: "208341 / 66317 < pi"
proof -
  have "0 < sin_below (208341 / 66317)"
    by (simp add: sin_below_def)
  then have "0 < sin (208341 / 66317 :: real)"
    using sin_below_le [of "208341 / 66317"] by linarith
  moreover have "(208341 / 66317 :: real) < 2 * pi"
    using pi_ge_two by simp
  ultimately show ?thesis
    using sin_le_zero [of "208341 / 66317"] by fastforce
qed

lemma pi_upper: "pi < 104348 / 33215"
proof -
  have "- sin_below (- (104348 / 33215)) < 0"
    by (simp add: sin_below_def)
  then have "sin (104348 / 33215 :: real) < 0"
    using sin_le_above [of "104348 / 33215"] by linarith
  then show ?thesis
    using sin_ge_zero [of "104348 / 33215"] by fastforce
qed

lemma sin_4491: "- 0.580625 < sin (4491.858 :: real) \<and> sin (4491.858 :: real) < - 0.5806236"
proof -
  define \<phi> :: real where "\<phi> = 1430 * pi - 4491.858"
  have lo: "3235 / 5222 < \<phi>" and hi: "\<phi> < 1252 / 2021"
    using pi_lower pi_upper by (simp_all add: \<phi>_def)
  have half: "1252 / 2021 < pi / 2"
    using pi_ge_two by simp
  have "sin (3235 / 5222 :: real) < sin \<phi>"
    using lo hi half by (intro sin_monotone_2pi) simp_all
  moreover have "0.5806236 < sin_below (3235 / 5222)"
    by (simp add: sin_below_def)
  ultimately have low: "0.5806236 < sin \<phi>"
    using sin_below_le [of "3235 / 5222"] by linarith
  have "sin \<phi> < sin (1252 / 2021 :: real)"
    using lo hi half by (intro sin_monotone_2pi) simp_all
  moreover have "- sin_below (- (1252 / 2021)) < 0.580625"
    by (simp add: sin_below_def)
  ultimately have high: "sin \<phi> < 0.580625"
    using sin_le_above [of "1252 / 2021"] by linarith
  have "sin (4491.858 :: real) = sin (1430 * pi - \<phi>)"
    by (simp add: \<phi>_def)
  also have "\<dots> = sin (1430 * pi) * cos \<phi> - cos (1430 * pi) * sin \<phi>"
    by (rule sin_diff)
  also have "\<dots> = - sin \<phi>"
    by simp
  finally show ?thesis using low high by simp
qed

lemma generateBuildings_loop_upto:
  "generateBuildings_loop i count acc = acc @ map (building_at count) [i..count - 1]"
proof (induction i count acc rule: generateBuildings_loop.induct)
  case (1 i count buildings)
  show ?case
  proof (cases "i < count")
    case True
    then have "[i..count - 1] = i # [i + 1..count - 1]"
      by (simp add: upto_rec1)
    moreover have "generateBuildings_loop i count buildings =
        generateBuildings_loop (i + 1) count (buildings @ [building_at count i])"
      using True by (subst generateBuildings_loop.simps) simp
    ultimately show ?thesis using 1 [OF True] by simp
  next
    case False
    moreover have "generateBuildings_loop i count buildings = buildings"
      using False by (subst generateBuildings_loop.simps) simp
    ultimately show ?thesis by simp
  qed
qed

lemma generateBuildings_map: "generateBuildings count = map (building_at count) [0..count - 1]"
  by (simp add: generateBuildings_def generateBuildings_loop_upto)

lemma length_generateBuildings: "0 \<le> count \<Longrightarrow> int (length (generateBuildings count)) = count"
  by (simp add: generateBuildings_map)

lemma nth_generateBuildings:
  "0 \<le> i \<Longrightarrow> i < count \<Longrightarrow> generateBuildings count ! nat i = building_at count i"
  by (simp add: generateBuildings_map)

lemma fmod_neg_between:
  assumes "0 < b" "of_int z - 1 < a / b" "a / b < of_int z" "z \<le> 0"
  shows "fmod a b = a - b * of_int z"
proof -
  have "a / b \<le> of_int z" using assms(3) by simp
  with assms(2) have c: "\<lceil>a / b\<rceil> = z" by (rule ceiling_unique)
  have "of_int z \<le> (0::real)" using assms(4) by simp
  with assms(3) have "\<not> 0 \<le> a / b" by linarith
  then show ?thesis by (simp add: fmod_def js_trunc_def c)
qed

text \<open>
  Claim C2 says that every generated building has its width in \<open>[0.03, 0.08)\<close> and its
  height in \<open>[0.3, 1.0)\<close>. The call the program makes, \<open>generateBuildings 45\<close>, does return 45
  buildings, but the third one (index 2) has a negative seed, the remainders come out
  negative, and both its width and its height fall below their bands.
\<close>

theorem generateBuildings_45_third_building:
  "length (generateBuildings 45) = 45 \<and>
   0.005 < b_width (generateBuildings 45 ! 2) \<and> b_width (generateBuildings 45 ! 2) < 0.0232 \<and>
   0.175 < b_height (generateBuildings 45 ! 2) \<and> b_height (generateBuildings 45 ! 2) < 0.2268"
proof -
  define seed :: real where "seed = sin (of_int 2 * 2245.929) * 10000"
  have "of_int 2 * 2245.929 = (4491.858 :: real)" by simp
  then have "seed = sin (4491.858 :: real) * 10000" by (simp only: seed_def)
  then have seed: "- 5806.25 < seed" "seed < - 5806.236"
    using sin_4491 by simp_all
  have "fmod (seed * 1.3) 0.05 = seed * 1.3 - 0.05 * of_int (- 150962)"
    using seed by (intro fmod_neg_between) simp_all
  then have w: "0.03 + fmod (seed * 1.3) 0.05 = seed * 1.3 + 7548.13" by simp
  have "fmod (seed * 3.7) 0.7 = seed * 3.7 - 0.7 * of_int (- 30690)"
    using seed by (intro fmod_neg_between) simp_all
  then have h: "0.3 + fmod (seed * 3.7) 0.7 = seed * 3.7 + 21483.3" by simp
  have b: "generateBuildings 45 ! 2 = building_at 45 2"
    using nth_generateBuildings [of 2 45] by simp
  have "b_width (building_at 45 2) = 0.03 + fmod (seed * 1.3) 0.05"
    "b_height (building_at 45 2) = 0.3 + fmod (seed * 3.7) 0.7"
    by (simp_all add: building_at_def Let_def seed_def)
  then have "b_width (generateBuildings 45 ! 2) = seed * 1.3 + 7548.13"
    "b_height (generateBuildings 45 ! 2) = seed * 3.7 + 21483.3"
    by (simp_all only: b w h)
  moreover have "length (generateBuildings 45) = 45"
    using length_generateBuildings [of 45] by simp
  ultimately show ?thesis using seed by simp
qed

end
